theory Spec2Isabelle
  imports Main
begin

section \<open>Strings\<close>

text \<open>
  JavaScript strings are modelled as \<^typ>\<open>string\<close> (lists of 8-bit characters), so the
  development covers texts in the Latin-1 range; \<open>length\<close> is the \<open>.length\<close> of the source.
\<close>

definition ascii_upper :: string where
  "ascii_upper = ''ABCDEFGHIJKLMNOPQRSTUVWXYZ''"

definition ascii_lower :: string where
  "ascii_lower = ''abcdefghijklmnopqrstuvwxyz''"

definition ascii_digits :: string where
  "ascii_digits = ''0123456789''"

text \<open>The capital letters of Latin-1 beyond ASCII (\<open>U+00C0\<close> to \<open>U+00DE\<close> without the
  multiplication sign) and their small letters.\<close>

definition latin1_upper :: string where
  "latin1_upper =
     [CHR 0xC0, CHR 0xC1, CHR 0xC2, CHR 0xC3, CHR 0xC4, CHR 0xC5, CHR 0xC6, CHR 0xC7,
      CHR 0xC8, CHR 0xC9, CHR 0xCA, CHR 0xCB, CHR 0xCC, CHR 0xCD, CHR 0xCE, CHR 0xCF,
      CHR 0xD0, CHR 0xD1, CHR 0xD2, CHR 0xD3, CHR 0xD4, CHR 0xD5, CHR 0xD6, CHR 0xD8,
      CHR 0xD9, CHR 0xDA, CHR 0xDB, CHR 0xDC, CHR 0xDD, CHR 0xDE]"

definition latin1_lower :: string where
  "latin1_lower =
     [CHR 0xE0, CHR 0xE1, CHR 0xE2, CHR 0xE3, CHR 0xE4, CHR 0xE5, CHR 0xE6, CHR 0xE7,
      CHR 0xE8, CHR 0xE9, CHR 0xEA, CHR 0xEB, CHR 0xEC, CHR 0xED, CHR 0xEE, CHR 0xEF,
      CHR 0xF0, CHR 0xF1, CHR 0xF2, CHR 0xF3, CHR 0xF4, CHR 0xF5, CHR 0xF6, CHR 0xF8,
      CHR 0xF9, CHR 0xFA, CHR 0xFB, CHR 0xFC, CHR 0xFD, CHR 0xFE]"

text \<open>\<open>String.prototype.toLowerCase\<close>: every capital letter is replaced by its small letter.\<close>

definition toLowerCase :: "string \<Rightarrow> string" where
  "toLowerCase s =
     map (\<lambda>c. case map_of (zip (ascii_upper @ latin1_upper) (ascii_lower @ latin1_lower)) c of
                 Some d \<Rightarrow> d
               | None \<Rightarrow> c) s"

text \<open>\<open>s.includes(p)\<close>: \<open>p\<close> occurs in \<open>s\<close> as a contiguous substring.\<close>

fun str_includes :: "string \<Rightarrow> string \<Rightarrow> bool" where
  "str_includes [] p = (p = [])"
| "str_includes (c # cs) p = (take (length p) (c # cs) = p \<or> str_includes cs p)"

text \<open>
  The white space of \<open>String.prototype.trim\<close> and of the regular expression class \<open>\s\<close>
  (tab, line feed, vertical tab, form feed, carriage return, space, no-break space).
\<close>

definition white_space :: string where
  "white_space = [CHR 0x09, CHR 0x0A, CHR 0x0B, CHR 0x0C, CHR 0x0D, CHR 0x20, CHR 0xA0]"

definition is_space :: "char \<Rightarrow> bool" where
  "is_space c = (c \<in> set white_space)"

definition trim :: "string \<Rightarrow> string" where
  "trim s = rev (dropWhile is_space (rev (dropWhile is_space s)))"

section \<open>Structured-source extractor (\<open>scrapeTICrossReference\<close>)\<close>

subsection \<open>Data\<close>

text \<open>
  A DOM element as the extraction callback reads it: its \<open>textContent\<close>, its resolved
  \<open>href\<close>, its \<open>title\<close>, whether it is \<open>document.body\<close>, and its \<open>parentElement\<close>
  (\<open>None\<close> for \<open>null\<close>).
\<close>

datatype element =
  Element (textContent: string) (href: string) (title: string) (isBody: bool)
          (parentElement: "element option")

record ti_alt =
  partNumber :: string
  matchType :: string
  href :: string
  title :: string

subsection \<open>Match-type inference\<close>

text \<open>The \<open>if\<close>/\<open>else if\<close> chain applied to the lowercased text of one ancestor.\<close>

definition match_phrase :: "string \<Rightarrow> string option" where
  "match_phrase parentText =
     (if str_includes parentText ''drop-in replacement'' \<or>
         str_includes parentText ''drop in replacement''
      then Some ''Drop-in replacement''
      else if str_includes parentText ''exact match'' then Some ''Exact Match''
      else if str_includes parentText ''same functionality'' then Some ''Same Functionality''
      else if str_includes parentText ''pin compatible'' then Some ''Pin Compatible''
      else if str_includes parentText ''functional equivalent'' then Some ''Functional Equivalent''
      else if str_includes parentText ''compatible'' then Some ''Compatible''
      else if str_includes parentText ''replacement'' then Some ''Replacement''
      else None)"

text \<open>
  The loop \<open>while (currentElement && currentElement !== document.body)\<close>, started at the
  anchor's \<open>parentElement\<close>; the result is the final value of \<open>matchType\<close>.
\<close>

fun infer_match_type :: "element option \<Rightarrow> string" where
  "infer_match_type None = ''Cross-Reference Match''"
| "infer_match_type (Some (Element text h t body parent)) =
     (if body then ''Cross-Reference Match''
      else (case match_phrase (toLowerCase text) of
              Some label \<Rightarrow> label
            | None \<Rightarrow> infer_match_type parent))"

subsection \<open>Filtering and mapping the anchors\<close>

text \<open>The predicate of \<open>elements.filter\<close>.\<close>

definition keep_anchor :: "element \<Rightarrow> bool" where
  "keep_anchor el =
     (let text = trim (element.textContent el); href = element.href el in
        text \<noteq> [] \<and>
        length text > 3 \<and>
        length text < 20 \<and>
        str_includes href ''/product/'' \<and>
        \<not> str_includes text ''Request'' \<and>
        \<not> str_includes text ''samples'' \<and>
        \<not> str_includes text ''Close'' \<and>
        \<not> str_includes text ''Menu'' \<and>
        \<not> str_includes text ''Previous'' \<and>
        \<not> str_includes text ''Language'' \<and>
        \<not> str_includes text ''My cart'' \<and>
        \<not> str_includes text ''Search'' \<and>
        \<not> str_includes text ''Home'' \<and>
        \<not> str_includes text ''Cross-reference'')"

text \<open>The function of \<open>.map\<close>; \<open>el.title || el.textContent.trim()\<close> takes the text when the
  title is empty.\<close>

definition to_alternative :: "element \<Rightarrow> ti_alt" where
  "to_alternative el =
     \<lparr> partNumber = trim (element.textContent el),
       matchType = infer_match_type (parentElement el),
       href = element.href el,
       title = (if element.title el = [] then trim (element.textContent el)
                else element.title el) \<rparr>"

definition extract_alternatives :: "element list \<Rightarrow> ti_alt list" where
  "extract_alternatives elements = map to_alternative (filter keep_anchor elements)"

subsection \<open>The rendering session\<close>

text \<open>A call either returns a value or throws an error with a message.\<close>

datatype 'a outcome = Returns 'a | Throws string

text \<open>
  What the rendering engine does during one call: each awaited step either succeeds
  (\<open>None\<close>) or rejects with a message, and \<open>anchors\<close> are the elements matching
  \<open>a[href*="/product/"]\<close> in document order.
\<close>

record browser_env =
  launch_error :: "string option"
  newPage_error :: "string option"
  setUserAgent_error :: "string option"
  goto_error :: "string option"
  waitForSelector_error :: "string option"
  eval_error :: "string option"
  anchors :: "element list"
  close_error :: "string option"

text \<open>
  The \<open>try\<close> block: its completion, and whether \<open>browser\<close> has been assigned. A rejected
  \<open>waitForSelector\<close> is caught by the inner handler, which returns the empty list.
\<close>

definition scrape_try :: "browser_env \<Rightarrow> ti_alt list outcome \<times> bool" where
  "scrape_try w =
     (case launch_error w of Some m \<Rightarrow> (Throws m, False) | None \<Rightarrow>
      (case newPage_error w of Some m \<Rightarrow> (Throws m, True) | None \<Rightarrow>
      (case setUserAgent_error w of Some m \<Rightarrow> (Throws m, True) | None \<Rightarrow>
      (case goto_error w of Some m \<Rightarrow> (Throws m, True) | None \<Rightarrow>
      (case waitForSelector_error w of Some m \<Rightarrow> (Returns [], True) | None \<Rightarrow>
      (case eval_error w of Some m \<Rightarrow> (Throws m, True) | None \<Rightarrow>
         (Returns (extract_alternatives (anchors w)), True)))))))"

text \<open>The \<open>catch\<close> block: any error of the \<open>try\<close> block becomes the empty list.\<close>

definition scrape_catch :: "ti_alt list outcome \<Rightarrow> ti_alt list outcome" where
  "scrape_catch r = (case r of Throws m \<Rightarrow> Returns [] | Returns alternatives \<Rightarrow> Returns alternatives)"

text \<open>
  The result of one call: how it completes for the caller, the address navigated to, and
  whether a browser was launched and \<open>browser.close()\<close> was called. In the \<open>finally\<close> block
  \<open>await browser.close()\<close> is not guarded: when it rejects, the call rejects.
\<close>

record scrape_run =
  completion :: "ti_alt list outcome"
  tiUrl :: string
  launched :: bool
  close_called :: bool

definition scrapeTICrossReference :: "browser_env \<Rightarrow> string \<Rightarrow> scrape_run" where
  "scrapeTICrossReference w part =
     (let (r, browser) = scrape_try w;
          caught = scrape_catch r
      in \<lparr> completion =
             (if browser then (case close_error w of Some m \<Rightarrow> Throws m | None \<Rightarrow> caught)
              else caught),
           tiUrl = ''https://www.ti.com/cross-reference-search?singlePart='' @ part @ ''&p=1'',
           launched = browser,
           close_called = browser \<rparr>)"

section \<open>Parsing the model's reply in batch mode\<close>

subsection \<open>The two regular expressions\<close>

text \<open>
  The expressions of the parser are sequences of literal characters, single characters of a
  class, repetitions of a class (greedy or lazy, with a minimum count, possibly a capture
  group) and the end anchor. Both start with \<open>^\<close> and have no flags, so a match starts at the
  first character.
\<close>

datatype rx_item =
    RxLit char
  | RxCls "char \<Rightarrow> bool"
  | RxRep bool nat "char \<Rightarrow> bool" bool
  | RxEnd

fun first_some :: "'a option list \<Rightarrow> 'a option" where
  "first_some [] = None"
| "first_some (None # xs) = first_some xs"
| "first_some (Some v # xs) = Some v"

text \<open>
  The repetition counts in the order in which backtracking tries them: a greedy repetition
  starts from the longest run and gives characters back one at a time, a lazy one starts from
  the minimum and takes one more at a time.
\<close>

definition candidates :: "bool \<Rightarrow> nat \<Rightarrow> nat \<Rightarrow> nat list" where
  "candidates greedy lo hi = (if greedy then rev [lo..<Suc hi] else [lo..<Suc hi])"

text \<open>The first match in backtracking order; the result lists the captured groups.\<close>

fun rx_match :: "rx_item list \<Rightarrow> string \<Rightarrow> string list option" where
  "rx_match [] s = Some []"
| "rx_match (RxEnd # r) s = (if s = [] then rx_match r s else None)"
| "rx_match (RxLit c # r) s =
     (case s of [] \<Rightarrow> None | x # xs \<Rightarrow> if x = c then rx_match r xs else None)"
| "rx_match (RxCls cls # r) s =
     (case s of [] \<Rightarrow> None | x # xs \<Rightarrow> if cls x then rx_match r xs else None)"
| "rx_match (RxRep greedy lo cls captured # r) s =
     first_some
       (map (\<lambda>k. map_option (\<lambda>groups. if captured then take k s # groups else groups)
                     (rx_match r (drop k s)))
            (candidates greedy lo (length (takeWhile cls s))))"

definition is_digit :: "char \<Rightarrow> bool" where
  "is_digit c = (c \<in> set ascii_digits)"

definition is_upper_or_digit :: "char \<Rightarrow> bool" where
  "is_upper_or_digit c = (c \<in> set (ascii_upper @ ascii_digits))"

definition is_part_char :: "char \<Rightarrow> bool" where
  "is_part_char c = (c \<in> set (ascii_upper @ ascii_digits @ ''-./''))"

text \<open>The class \<open>.\<close>: every character but the line terminators.\<close>

definition is_dot :: "char \<Rightarrow> bool" where
  "is_dot c = (c \<notin> set [CHR 0x0A, CHR 0x0D])"

text \<open>\<^verbatim>\<open>/^\d+\.\s+[A-Z0-9]/\<close>\<close>

definition numbered_line_rx :: "rx_item list" where
  "numbered_line_rx =
     [RxRep True 1 is_digit False, RxLit CHR ''.'', RxRep True 1 is_space False,
      RxCls is_upper_or_digit]"

text \<open>\<^verbatim>\<open>/^\d+\.\s+([A-Z0-9\-\.\/]+)\s*-\s*(.+?)\s*-\s*(.+)$/\<close>\<close>

definition alternative_rx :: "rx_item list" where
  "alternative_rx =
     [RxRep True 1 is_digit False, RxLit CHR ''.'', RxRep True 1 is_space False,
      RxRep True 1 is_part_char True,
      RxRep True 0 is_space False, RxLit CHR ''-'', RxRep True 0 is_space False,
      RxRep False 1 is_dot True,
      RxRep True 0 is_space False, RxLit CHR ''-'', RxRep True 0 is_space False,
      RxRep True 1 is_dot True,
      RxEnd]"

definition rx_test :: "rx_item list \<Rightarrow> string \<Rightarrow> bool" where
  "rx_test rx s = (rx_match rx s \<noteq> None)"

subsection \<open>The parser\<close>

record ai_alt =
  partNumber :: string
  description :: string
  manufacturer :: string

text \<open>\<open>content.split('\n')\<close>\<close>

fun split_on :: "char \<Rightarrow> string \<Rightarrow> string list" where
  "split_on sep [] = [[]]"
| "split_on sep (c # cs) =
     (if c = sep then [] # split_on sep cs
      else (case split_on sep cs of
              [] \<Rightarrow> [[c]]
            | line # rest \<Rightarrow> (c # line) # rest))"

text \<open>The function of \<open>.map\<close>: the three trimmed groups of a matching line, \<open>None\<close> for
  \<open>null\<close>. The expression is applied to the line as it is, not to the trimmed line.\<close>

definition parse_line :: "string \<Rightarrow> ai_alt option" where
  "parse_line line =
     (case rx_match alternative_rx line of
        Some [g1, g2, g3] \<Rightarrow>
          Some \<lparr> partNumber = trim g1, description = trim g2, manufacturer = trim g3 \<rparr>
      | _ \<Rightarrow> None)"

definition parse_ai_alternatives :: "string \<Rightarrow> ai_alt list" where
  "parse_ai_alternatives content =
     (let lines = filter (\<lambda>line. trim line \<noteq> []) (split_on (CHR 0x0A) content) in
        take 3 (List.map_filter parse_line
                  (filter (\<lambda>line. rx_test numbered_line_rx (trim line)) lines)))"

section \<open>Web-evidence gatherer (\<open>googleSearch\<close>)\<close>

record search_item =
  title :: string
  link :: string
  snippet :: string

text \<open>A raw hit of the search reply; its snippet may be missing.\<close>

record raw_hit =
  hit_title :: string
  hit_link :: string
  hit_snippet :: "string option"

text \<open>
  How the search endpoint answers one request: \<open>fetch\<close> rejects, the response is not \<open>ok\<close>
  (status and body text), \<open>resp.json()\<close> rejects, or the reply is read (\<open>None\<close> when
  \<open>data.items\<close> is not an array).
\<close>

datatype search_reply =
    SearchFetchRejects string
  | SearchNotOk string string
  | SearchJsonRejects string
  | SearchJson "raw_hit list option"

record search_env =
  googleKey_set :: bool
  googleCx_set :: bool
  search_reply :: search_reply

text \<open>The completion of the call and whether the search endpoint was requested.\<close>

definition googleSearch :: "search_env \<Rightarrow> string \<Rightarrow> search_item list outcome \<times> bool" where
  "googleSearch g part =
     (if \<not> googleKey_set g \<or> \<not> googleCx_set g
      then (Throws ''Server is not configured with GOOGLE_API_KEY and GOOGLE_CX'', False)
      else (case search_reply g of
              SearchFetchRejects m \<Rightarrow> (Throws m, True)
            | SearchNotOk code text \<Rightarrow>
                (Throws (''Google Search API error: '' @ code @ '' '' @ text), True)
            | SearchJsonRejects m \<Rightarrow> (Throws m, True)
            | SearchJson data_items \<Rightarrow>
                (let items = (case data_items of Some its \<Rightarrow> its | None \<Rightarrow> []) in
                   (Returns (map (\<lambda>it. \<lparr> title = hit_title it, link = hit_link it,
                                          snippet = (case hit_snippet it of
                                                       Some t \<Rightarrow> t | None \<Rightarrow> []) \<rparr>) items),
                    True))))"

section \<open>Batch processing (\<open>POST /api/bulk-process\<close>)\<close>

subsection \<open>Data\<close>

record part_result =
  originalPart :: string
  tiAlternatives :: "ti_alt list"
  aiAlternatives :: "ai_alt list"
  status :: string
  error :: "string option"

record part_error =
  partNumber :: string
  error :: string

record batch_summary =
  success :: bool
  results :: "part_result list"
  errors :: "part_error list"
  totalProcessed :: nat
  successCount :: nat
  errorCount :: nat

text \<open>
  How the model endpoint answers one request: \<open>fetch\<close> rejects, the response is not \<open>ok\<close>,
  \<open>response.json()\<close> rejects, reading \<open>data.choices[0].message.content\<close> or calling
  \<open>content.split\<close> raises a type error, or the reply has a text content.
\<close>

datatype model_reply =
    ModelFetchRejects string
  | ModelNotOk
  | ModelJsonRejects string
  | ModelBadShape string
  | ModelContent string

text \<open>What the three external sources do while one part number is processed.\<close>

record part_env =
  browser :: browser_env
  search :: search_env
  model :: model_reply

text \<open>The requests made to the outside, in the order in which they are made.\<close>

datatype ext_call = BrowserLaunch string | SearchFetch string | ModelFetch string

subsection \<open>One part number\<close>

text \<open>
  What the outer \<open>try\<close> block of one iteration computes before it appends to \<open>results\<close>: the
  values of \<open>tiAlternatives\<close> and \<open>aiAlternatives\<close>, and the requests made. Each of the three
  sources has its own handler, which logs the error and leaves the initial empty list; a
  response of the model that is not \<open>ok\<close> leaves the empty list as well. The prompt is built
  by string formatting from the part number and the two lists and is read only by the model,
  whose reply is part of \<^typ>\<open>part_env\<close>.
\<close>

definition process_part ::
  "part_env \<Rightarrow> string \<Rightarrow> (ti_alt list \<times> ai_alt list) outcome \<times> ext_call list" where
  "process_part e part =
     (let ti_alts = (case completion (scrapeTICrossReference (browser e) part) of
                       Returns alternatives \<Rightarrow> alternatives
                     | Throws tiError \<Rightarrow> []);
          (searched, fetched) = googleSearch (search e) part;
          search_items = (case searched of Returns items \<Rightarrow> items | Throws searchError \<Rightarrow> []);
          ai_alts = (case model e of
                       ModelContent content \<Rightarrow> parse_ai_alternatives content
                     | ModelFetchRejects aiError \<Rightarrow> []
                     | ModelNotOk \<Rightarrow> []
                     | ModelJsonRejects aiError \<Rightarrow> []
                     | ModelBadShape aiError \<Rightarrow> [])
      in (Returns (ti_alts, ai_alts),
          BrowserLaunch part # (if fetched then [SearchFetch part] else []) @ [ModelFetch part]))"

subsection \<open>The loop and the handler\<close>

record loop_state =
  results_acc :: "part_result list"
  errors_acc :: "part_error list"
  calls_acc :: "ext_call list"

text \<open>
  The \<open>for\<close> loop with its \<open>try\<close>/\<open>catch\<close>, for any behaviour \<open>sources\<close> of the statements of
  the \<open>try\<close> block that come before \<open>results.push\<close>: when they complete, a \<open>success\<close> result is
  appended; when they throw, the handler appends the error to \<open>errors\<close> and an \<open>error\<close> result
  to \<open>results\<close>.
\<close>

fun bulk_loop ::
  "(nat \<Rightarrow> string \<Rightarrow> (ti_alt list \<times> ai_alt list) outcome \<times> ext_call list) \<Rightarrow> nat \<Rightarrow>
     string list \<Rightarrow> loop_state \<Rightarrow> loop_state" where
  "bulk_loop sources i [] st = st"
| "bulk_loop sources i (part # rest) st =
     (let (r, made) = sources i part;
          st' = (case r of
                   Returns (ti_alts, ai_alts) \<Rightarrow>
                     st\<lparr> results_acc := results_acc st @
                           [\<lparr> originalPart = part,
                              tiAlternatives = take 1 ti_alts,
                              aiAlternatives = take 3 ai_alts,
                              status = ''success'',
                              error = None \<rparr>],
                         calls_acc := calls_acc st @ made \<rparr>
                 | Throws message \<Rightarrow>
                     st\<lparr> results_acc := results_acc st @
                           [\<lparr> originalPart = part, tiAlternatives = [], aiAlternatives = [],
                              status = ''error'', error = Some message \<rparr>],
                         errors_acc := errors_acc st @
                           [\<lparr> partNumber = part, error = message \<rparr>],
                         calls_acc := calls_acc st @ made \<rparr>)
      in bulk_loop sources (Suc i) rest st')"

text \<open>The field \<open>partNumbers\<close> of the request body: falsy, not an array, or an array, whose
  entries are taken to be strings.\<close>

datatype partNumbers_field = PnAbsent | PnNotArray | PnArray "string list"

datatype bulk_response = BulkError nat string | BulkSummary batch_summary

definition bulk_process_with ::
  "(nat \<Rightarrow> string \<Rightarrow> (ti_alt list \<times> ai_alt list) outcome \<times> ext_call list) \<Rightarrow>
     partNumbers_field \<Rightarrow> bulk_response \<times> ext_call list" where
  "bulk_process_with sources field =
     (case field of
        PnAbsent \<Rightarrow> (BulkError 400 ''Part numbers array is required'', [])
      | PnNotArray \<Rightarrow> (BulkError 400 ''Part numbers array is required'', [])
      | PnArray partNumbers \<Rightarrow>
          if length partNumbers = 0
          then (BulkError 400 ''Part numbers array is required'', [])
          else if length partNumbers > 10
          then (BulkError 400 ''Maximum 10 part numbers allowed'', [])
          else (let st = bulk_loop sources 0 partNumbers
                           \<lparr> results_acc = [], errors_acc = [], calls_acc = [] \<rparr>
                in (BulkSummary
                      \<lparr> success = True,
                        results = results_acc st,
                        errors = errors_acc st,
                        totalProcessed = length (results_acc st),
                        successCount =
                          length (filter (\<lambda>r. status r = ''success'') (results_acc st)),
                        errorCount = length (errors_acc st) \<rparr>,
                    calls_acc st)))"

text \<open>The handler of the source: iteration \<open>i\<close> runs \<^const>\<open>process_part\<close> in the environment
  of that iteration.\<close>

definition bulk_process ::
  "(nat \<Rightarrow> part_env) \<Rightarrow> partNumbers_field \<Rightarrow> bulk_response \<times> ext_call list" where
  "bulk_process env field = bulk_process_with (\<lambda>i. process_part (env i)) field"

section \<open>Export projection (\<open>GET /api/bulk-export/excel\<close>)\<close>

definition export_header :: "string list" where
  "export_header =
     [''Original Part'', ''TI Cross-Reference Alternative'', ''Match Type'',
      ''AI Alternative 1'', ''AI Alternative 2'', ''AI Alternative 3'', ''Status'']"

text \<open>One row; \<open>matchType || 'Cross-Reference Match'\<close> replaces an empty match type.\<close>

definition export_row :: "part_result \<Rightarrow> string list" where
  "export_row result =
     [originalPart result,
      (if length (tiAlternatives result) > 0
       then ti_alt.partNumber (tiAlternatives result ! 0) else ''N/A''),
      (if length (tiAlternatives result) > 0
       then (if matchType (tiAlternatives result ! 0) = [] then ''Cross-Reference Match''
             else matchType (tiAlternatives result ! 0))
       else ''N/A''),
      (if length (aiAlternatives result) > 0
       then ai_alt.partNumber (aiAlternatives result ! 0) else ''N/A''),
      (if length (aiAlternatives result) > 1
       then ai_alt.partNumber (aiAlternatives result ! 1) else ''N/A''),
      (if length (aiAlternatives result) > 2
       then ai_alt.partNumber (aiAlternatives result ! 2) else ''N/A''),
      status result]"

definition excel_data :: "part_result list \<Rightarrow> string list list" where
  "excel_data parsedResults = export_header # map export_row parsedResults"

section \<open>Spreadsheet upload (\<open>POST /api/bulk-upload\<close>)\<close>

text \<open>A cell of the sheet as \<open>sheet_to_json\<close> returns it; \<open>CellEmpty\<close> is \<open>undefined\<close>.\<close>

datatype cell = CellString string | CellNumber int | CellBoolean bool | CellEmpty

text \<open>\<open>row[0]\<close>\<close>

definition first_cell :: "cell list \<Rightarrow> cell" where
  "first_cell row = (case row of [] \<Rightarrow> CellEmpty | c # cs \<Rightarrow> c)"

text \<open>\<open>part && typeof part === 'string' && part.trim().length > 0\<close>\<close>

definition valid_part :: "cell \<Rightarrow> bool" where
  "valid_part part =
     (case part of CellString s \<Rightarrow> s \<noteq> [] \<and> length (trim s) > 0 | _ \<Rightarrow> False)"

definition trim_cell :: "cell \<Rightarrow> string" where
  "trim_cell part = (case part of CellString s \<Rightarrow> trim s | _ \<Rightarrow> [])"

definition extract_part_numbers :: "cell list list \<Rightarrow> string list" where
  "extract_part_numbers jsonData =
     take 10 (map trim_cell (filter valid_part (map first_cell jsonData)))"

text \<open>
  The request: no file, or a file whose reading either throws or gives the rows of the first
  sheet, and what removing the temporary file does.
\<close>

datatype upload_request = NoFile | UploadedFile "cell list list outcome" "string option"

datatype upload_response = UploadError nat string | UploadOk "string list" nat

definition bulk_upload :: "upload_request \<Rightarrow> upload_response" where
  "bulk_upload req =
     (case req of
        NoFile \<Rightarrow> UploadError 400 ''No file uploaded''
      | UploadedFile (Throws m) unlink_error \<Rightarrow>
          UploadError 500 (if m = [] then ''Failed to process file'' else m)
      | UploadedFile (Returns jsonData) unlink_error \<Rightarrow>
          (let partNumbers = extract_part_numbers jsonData in
             if length partNumbers = 0
             then UploadError 400 ''No valid part numbers found in the file''
             else if length partNumbers > 10
             then UploadError 400 ''Maximum 10 part numbers allowed''
             else (case unlink_error of
                     Some m \<Rightarrow> UploadError 500 (if m = [] then ''Failed to process file'' else m)
                   | None \<Rightarrow> UploadOk partNumbers (length partNumbers))))"

section \<open>Auxiliary definitions for the properties\<close>

subsection \<open>Match-type vocabulary\<close>

text \<open>The eight labels of a match type and the texts that the anchor filter excludes.\<close>

definition match_labels :: "string list" where
  "match_labels =
     [''Exact Match'', ''Drop-in replacement'', ''Same Functionality'', ''Pin Compatible'',
      ''Functional Equivalent'', ''Compatible'', ''Replacement'', ''Cross-Reference Match'']"

definition denylist :: "string list" where
  "denylist =
     [''Request'', ''samples'', ''Close'', ''Menu'', ''Previous'', ''Language'', ''My cart'',
      ''Search'', ''Home'', ''Cross-reference'']"

text \<open>
  Inference by a priority table, in the words of the specification: walking outward from
  the parent and stopping before \<open>document.body\<close>, the first ancestor whose lowercased text
  contains a phrase of the table decides, by the first such phrase in table order; without
  such an ancestor the label is the default.
\<close>

definition label_by_priority :: "(string \<times> string) list \<Rightarrow> string \<Rightarrow> string option" where
  "label_by_priority table text =
     map_option snd (find (\<lambda>(phrase, label). str_includes (toLowerCase text) phrase) table)"

fun ancestors_upto_body :: "element option \<Rightarrow> element list" where
  "ancestors_upto_body None = []"
| "ancestors_upto_body (Some (Element text h t body parent)) =
     (if body then [] else Element text h t body parent # ancestors_upto_body parent)"

definition nearest_label :: "(string \<times> string) list \<Rightarrow> element option \<Rightarrow> string" where
  "nearest_label table start =
     (case List.map_filter (\<lambda>e. label_by_priority table (element.textContent e))
             (ancestors_upto_body start) of
        [] \<Rightarrow> ''Cross-Reference Match''
      | label # others \<Rightarrow> label)"

text \<open>The priority order stated by the specification: the order of the vocabulary.\<close>

definition spec_phrase_priority :: "(string \<times> string) list" where
  "spec_phrase_priority =
     [(''exact match'', ''Exact Match''),
      (''drop-in replacement'', ''Drop-in replacement''),
      (''same functionality'', ''Same Functionality''),
      (''pin compatible'', ''Pin Compatible''),
      (''functional equivalent'', ''Functional Equivalent''),
      (''compatible'', ''Compatible''),
      (''replacement'', ''Replacement'')]"

text \<open>The priority order of the \<open>if\<close>/\<open>else if\<close> chain.\<close>

definition code_phrase_priority :: "(string \<times> string) list" where
  "code_phrase_priority =
     [(''drop-in replacement'', ''Drop-in replacement''),
      (''drop in replacement'', ''Drop-in replacement''),
      (''exact match'', ''Exact Match''),
      (''same functionality'', ''Same Functionality''),
      (''pin compatible'', ''Pin Compatible''),
      (''functional equivalent'', ''Functional Equivalent''),
      (''compatible'', ''Compatible''),
      (''replacement'', ''Replacement'')]"

text \<open>A table cell whose text carries two phrases, as the parent of an anchor.\<close>

definition two_phrase_cell :: "element option" where
  "two_phrase_cell =
     Some (Element ''TPS7A4501 Exact match, drop-in replacement'' [] [] False None)"

subsection \<open>Capture groups\<close>

text \<open>Minimum length and class of each capture group of an expression.\<close>

fun capture_specs :: "rx_item list \<Rightarrow> (nat \<times> (char \<Rightarrow> bool)) list" where
  "capture_specs [] = []"
| "capture_specs (RxRep greedy lo cls captured # r) =
     (if captured then (lo, cls) # capture_specs r else capture_specs r)"
| "capture_specs (RxLit c # r) = capture_specs r"
| "capture_specs (RxCls cls # r) = capture_specs r"
| "capture_specs (RxEnd # r) = capture_specs r"

text \<open>A line that passes the three filters of the parser: it is not blank, its trimmed text
  starts like a numbered entry, and the line itself matches the three-field pattern.\<close>

definition well_formed_line :: "string \<Rightarrow> bool" where
  "well_formed_line line =
     (trim line \<noteq> [] \<and> rx_test numbered_line_rx (trim line) \<and> rx_test alternative_rx line)"

text \<open>Two replies of the model: one line whose description is blank, and two well-formed
  lines among two malformed ones.\<close>

definition blank_description_reply :: string where
  "blank_description_reply = ''1. ABC -  - X''"

definition mixed_reply :: string where
  "mixed_reply =
     ''1. LM317T - Adjustable regulator - STMicroelectronics\<newline>'' @
     ''Here are some notes\<newline>'' @
     ''2. LM338 - 5A regulator - Texas Instruments\<newline>'' @
     ''3) LM350 3A regulator''"

subsection \<open>Rendering sessions used as examples\<close>

text \<open>A session whose browser cannot be launched.\<close>

definition no_browser :: browser_env where
  "no_browser =
     \<lparr> launch_error = Some ''Failed to launch the browser process'',
       newPage_error = None, setUserAgent_error = None, goto_error = None,
       waitForSelector_error = None, eval_error = None, anchors = [], close_error = None \<rparr>"

text \<open>A session in which no result link appears in time and closing the browser rejects.\<close>

definition close_rejects :: browser_env where
  "close_rejects =
     \<lparr> launch_error = None,
       newPage_error = None, setUserAgent_error = None, goto_error = None,
       waitForSelector_error = Some ''Waiting for selector failed: 15000ms exceeded'',
       eval_error = None, anchors = [],
       close_error = Some ''Protocol error (Browser.close): Target closed'' \<rparr>"

text \<open>A result page with one product link inside a table cell and one navigation link.\<close>

definition result_page :: browser_env where
  "result_page =
     \<lparr> launch_error = None,
       newPage_error = None, setUserAgent_error = None, goto_error = None,
       waitForSelector_error = None, eval_error = None,
       anchors =
         [Element '' TPS7A4501 '' ''https://www.ti.com/product/TPS7A4501'' [] False
            (Some (Element '' TPS7A4501 Pin Compatible '' [] [] False
               (Some (Element ''Cross-reference search'' [] [] True None)))),
          Element ''Request samples'' ''https://www.ti.com/product/TPS7A4501/samples'' [] False
            (Some (Element ''Cross-reference search'' [] [] True None))],
       close_error = None \<rparr>"

subsection \<open>Batch results\<close>

text \<open>
  The entry that one iteration appends to \<open>results\<close>, and what it appends to \<open>errors\<close>,
  as functions of how the statements before \<open>results.push\<close> complete.
\<close>

definition settled :: "string \<Rightarrow> (ti_alt list \<times> ai_alt list) outcome \<Rightarrow> part_result" where
  "settled part r =
     (case r of
        Returns (ti_alts, ai_alts) \<Rightarrow>
          \<lparr> originalPart = part, tiAlternatives = take 1 ti_alts,
            aiAlternatives = take 3 ai_alts, status = ''success'', error = None \<rparr>
      | Throws message \<Rightarrow>
          \<lparr> originalPart = part, tiAlternatives = [], aiAlternatives = [],
            status = ''error'', error = Some message \<rparr>)"

definition raised :: "string \<Rightarrow> (ti_alt list \<times> ai_alt list) outcome \<Rightarrow> part_error list" where
  "raised part r =
     (case r of
        Returns v \<Rightarrow> []
      | Throws message \<Rightarrow> [\<lparr> partNumber = part, error = message \<rparr>])"

text \<open>
  A failed synthesis step: the request is rejected, the response is not \<open>ok\<close>, the reply
  cannot be read, or its content has no well-formed line (an empty content among them).
\<close>

fun synthesis_failed :: "model_reply \<Rightarrow> bool" where
  "synthesis_failed (ModelContent content) = (parse_ai_alternatives content = [])"
| "synthesis_failed (ModelFetchRejects m) = True"
| "synthesis_failed ModelNotOk = True"
| "synthesis_failed (ModelJsonRejects m) = True"
| "synthesis_failed (ModelBadShape m) = True"

text \<open>The same environment at every iteration.\<close>

definition always :: "part_env \<Rightarrow> nat \<Rightarrow> part_env" where
  "always e i = e"

text \<open>An environment without search credentials, and one in which, besides, the browser
  cannot be launched and the request to the model is refused.\<close>

definition no_search :: search_env where
  "no_search = \<lparr> googleKey_set = False, googleCx_set = False, search_reply = SearchJson None \<rparr>"

definition synthesis_down :: part_env where
  "synthesis_down =
     \<lparr> browser = no_browser, search = no_search,
       model = ModelFetchRejects ''request to https://api.openai.com failed'' \<rparr>"

definition eleven_parts :: "string list" where
  "eleven_parts =
     [''LM317'', ''NE555'', ''LM358'', ''LM393'', ''TL071'', ''TL072'', ''LM741'', ''LM324'',
      ''LM339'', ''LM386'', ''LM7805'']"

subsection \<open>Export\<close>

text \<open>The row in the words of the specification: a field of the alternative at an index,
  or \<open>N/A\<close> when there is no alternative at that index.\<close>

definition nth_or_NA :: "('a \<Rightarrow> string) \<Rightarrow> 'a list \<Rightarrow> nat \<Rightarrow> string" where
  "nth_or_NA field xs i = (if i < length xs then field (xs ! i) else ''N/A'')"

definition spec_export_row :: "part_result \<Rightarrow> string list" where
  "spec_export_row result =
     [originalPart result,
      nth_or_NA ti_alt.partNumber (tiAlternatives result) 0,
      nth_or_NA matchType (tiAlternatives result) 0,
      nth_or_NA ai_alt.partNumber (aiAlternatives result) 0,
      nth_or_NA ai_alt.partNumber (aiAlternatives result) 1,
      nth_or_NA ai_alt.partNumber (aiAlternatives result) 2,
      status result]"

text \<open>An environment in which the result page answers, the search has no credentials and
  the model's response is not \<open>ok\<close>.\<close>

definition page_only :: part_env where
  "page_only = \<lparr> browser = result_page, search = no_search, model = ModelNotOk \<rparr>"

subsection \<open>Upload\<close>

text \<open>A sheet with eleven part numbers in its first column.\<close>

definition eleven_rows :: "cell list list" where
  "eleven_rows =
     [[CellString ''LM317''], [CellString ''NE555 ''], [CellString ''LM358''],
      [CellString ''LM393''], [CellString ''TL071''], [CellString ''TL072''],
      [CellString ''LM741''], [CellString ''LM324''], [CellString ''LM339''],
      [CellString ''LM386''], [CellString ''LM7805'']]"

section \<open>Properties of the batch orchestrator\<close>

subsection \<open>The loop in closed form\<close>

lemma settled_originalPart: "originalPart (settled part r) = part"
  by (simp add: settled_def split: outcome.split prod.split)

lemma settled_status:
  "status (settled part r) = (case r of Returns v \<Rightarrow> ''success'' | Throws m \<Rightarrow> ''error'')"
  by (simp add: settled_def split: outcome.split prod.split)

lemma bulk_loop_step:
  "bulk_loop sources i (part # rest) st =
     bulk_loop sources (Suc i) rest
       (st\<lparr> results_acc := results_acc st @ [settled part (fst (sources i part))],
            errors_acc := errors_acc st @ raised part (fst (sources i part)),
            calls_acc := calls_acc st @ snd (sources i part) \<rparr>)"
  by (cases "sources i part") (auto simp: settled_def raised_def split: outcome.split prod.split)

lemma bulk_loop_results:
  "results_acc (bulk_loop sources i parts st) =
     results_acc st @ map (\<lambda>(k, part). settled part (fst (sources k part))) (List.enumerate i parts)"
proof (induction parts arbitrary: i st)
  case Nil
  show ?case by simp
next
  case (Cons part rest)
  show ?case
    unfolding bulk_loop_step Cons.IH by simp
qed

lemma bulk_loop_errors:
  "errors_acc (bulk_loop sources i parts st) =
     errors_acc st @ concat (map (\<lambda>(k, part). raised part (fst (sources k part))) (List.enumerate i parts))"
proof (induction parts arbitrary: i st)
  case Nil
  show ?case by simp
next
  case (Cons part rest)
  show ?case
    unfolding bulk_loop_step Cons.IH by simp
qed

lemma bulk_loop_calls:
  "calls_acc (bulk_loop sources i parts st) =
     calls_acc st @ concat (map (\<lambda>(k, part). snd (sources k part)) (List.enumerate i parts))"
proof (induction parts arbitrary: i st)
  case Nil
  show ?case by simp
next
  case (Cons part rest)
  show ?case
    unfolding bulk_loop_step Cons.IH by simp
qed

lemma count_split:
  "length (filter (\<lambda>r. status r = ''success'')
       (map (\<lambda>(k, part). settled part (fst (sources k part))) xs))
   + length (concat (map (\<lambda>(k, part). raised part (fst (sources k part))) xs)) = length xs"
proof (induction xs)
  case Nil
  show ?case by simp
next
  case (Cons x xs)
  obtain k part where x: "x = (k, part)" by (cases x)
  show ?case
    using Cons.IH by (cases "fst (sources k part)") (simp_all add: x settled_status raised_def)
qed

lemma map_originalPart_enumerate:
  "map (originalPart \<circ> (\<lambda>(k, part). settled part (fst (sources k part))))
       (List.enumerate i parts) = parts"
  by (induction parts arbitrary: i) (simp_all add: settled_originalPart)

lemma bulk_process_with_accepted:
  assumes "partNumbers \<noteq> []" and "length partNumbers \<le> 10"
  shows "bulk_process_with sources (PnArray partNumbers) =
     (BulkSummary
        \<lparr> success = True,
          results = map (\<lambda>(k, part). settled part (fst (sources k part)))
                        (List.enumerate 0 partNumbers),
          errors = concat (map (\<lambda>(k, part). raised part (fst (sources k part)))
                               (List.enumerate 0 partNumbers)),
          totalProcessed = length partNumbers,
          successCount = length (filter (\<lambda>r. status r = ''success'')
                           (map (\<lambda>(k, part). settled part (fst (sources k part)))
                                (List.enumerate 0 partNumbers))),
          errorCount = length (concat (map (\<lambda>(k, part). raised part (fst (sources k part)))
                                          (List.enumerate 0 partNumbers))) \<rparr>,
      concat (map (\<lambda>(k, part). snd (sources k part)) (List.enumerate 0 partNumbers)))"
  using assms
  by (simp add: bulk_process_with_def Let_def bulk_loop_results bulk_loop_errors bulk_loop_calls)

lemma bulk_process_with_rejected:
  assumes "partNumbers = [] \<or> 10 < length partNumbers"
  shows "bulk_process_with sources (PnArray partNumbers) =
     (BulkError 400 (if partNumbers = [] then ''Part numbers array is required''
                     else ''Maximum 10 part numbers allowed''), [])"
  using assms by (auto simp: bulk_process_with_def)

subsection \<open>Synthesis failures\<close>

lemma process_part_returns:
  "\<exists>ti_alts. fst (process_part e part) =
      Returns (ti_alts, (case model e of ModelContent content \<Rightarrow> parse_ai_alternatives content
                                        | _ \<Rightarrow> []))"
  by (simp add: process_part_def Let_def split: prod.splits model_reply.splits)

lemma process_part_synthesis_failed:
  assumes "synthesis_failed (model e)"
  shows "\<exists>ti_alts. fst (process_part e part) = Returns (ti_alts, [])"
  using assms process_part_returns [of e part]
  by (cases "model e") simp_all

lemma raised_process_part: "raised part (fst (process_part e part)) = []"
  using process_part_returns [of e part] by (auto simp: raised_def)

lemma no_errors_raised:
  "concat (map (\<lambda>(k, part). raised part (fst (process_part (env k) part))) xs) = []"
  by (induction xs) (auto simp: raised_process_part)

text \<open>
  Claim C1, as the code has it. In batch mode, for every part number whose synthesis step
  fails (the request to the model is rejected, the response is not \<open>ok\<close>, or the reply is
  unreadable, empty or without a well-formed line), the inner handler absorbs the failure:
  the part's result has status \<open>success\<close>, an empty \<open>aiAlternatives\<close> list and no error
  message, and nothing is recorded in \<open>errors\<close>. The failure is not fatal to the part.
\<close>

theorem synthesis_failure_absorbed:
  assumes "1 \<le> length partNumbers" and "length partNumbers \<le> 10"
    and "i < length partNumbers" and "synthesis_failed (model (env i))"
  shows "\<exists>s. fst (bulk_process env (PnArray partNumbers)) = BulkSummary s
           \<and> originalPart (results s ! i) = partNumbers ! i
           \<and> status (results s ! i) = ''success''
           \<and> aiAlternatives (results s ! i) = []
           \<and> part_result.error (results s ! i) = None
           \<and> errors s = []"
proof -
  from assms have ne: "partNumbers \<noteq> []" by auto
  from process_part_synthesis_failed [OF assms(4)] obtain ti_alts where
    r: "fst (process_part (env i) (partNumbers ! i)) = Returns (ti_alts, [])" by blast
  have nth: "map (\<lambda>(k, part). settled part (fst (process_part (env k) part)))
               (List.enumerate 0 partNumbers) ! i =
             settled (partNumbers ! i) (fst (process_part (env i) (partNumbers ! i)))"
    using assms(3) by (simp add: nth_enumerate_eq)
  have entry: "settled (partNumbers ! i) (fst (process_part (env i) (partNumbers ! i))) =
      \<lparr> originalPart = partNumbers ! i, tiAlternatives = take 1 ti_alts, aiAlternatives = [],
        status = ''success'', error = None \<rparr>"
    by (simp add: r settled_def)
  show ?thesis
    unfolding bulk_process_def bulk_process_with_accepted [OF ne assms(2)]
    by (simp add: nth entry no_errors_raised)
qed

text \<open>
  Witness for C1: a one-part batch in an environment where the request to the model is
  refused.
\<close>

theorem synthesis_failure_absorbed_witness:
  "1 \<le> length [''LM317''] \<and> length [''LM317''] \<le> 10 \<and> (0::nat) < length [''LM317'']
   \<and> synthesis_failed (model (always synthesis_down 0))
   \<and> (\<exists>s. fst (bulk_process (always synthesis_down) (PnArray [''LM317''])) = BulkSummary s
           \<and> status (results s ! 0) = ''success''
           \<and> aiAlternatives (results s ! 0) = []
           \<and> errors s = [])"
proof -
  have h: "synthesis_failed (model (always synthesis_down 0))"
    by (simp add: always_def synthesis_down_def)
  from synthesis_failure_absorbed [of "[''LM317'']" 0 "always synthesis_down", OF _ _ _ h]
  show ?thesis using h by auto
qed

text \<open>
  Counterexample to C1 as stated: with the browser, the search and the model all failing
  for \<open>LM317\<close>, the batch reports the part with status \<open>success\<close> and an empty \<open>errors\<close> list.
\<close>

theorem synthesis_failure_reported_success:
  "fst (bulk_process (always synthesis_down) (PnArray [''LM317''])) =
     BulkSummary
       \<lparr> success = True,
         results = [\<lparr> originalPart = ''LM317'', tiAlternatives = [], aiAlternatives = [],
                      status = ''success'', error = None \<rparr>],
         errors = [],
         totalProcessed = 1,
         successCount = 1,
         errorCount = 0 \<rparr>"
  by (simp add: bulk_process_def bulk_process_with_def process_part_def always_def
        synthesis_down_def no_browser_def no_search_def googleSearch_def
        scrapeTICrossReference_def scrape_try_def scrape_catch_def Let_def)

subsection \<open>One result per input\<close>

text \<open>
  Claim C2. For every accepted list of 1 to 10 part numbers the handler answers with a
  summary whose \<open>results\<close> has exactly one entry per input part number, in input order,
  whatever the statements of the \<open>try\<close> block do for each part (return or throw): entry
  \<open>i\<close> is the one settled for input \<open>i\<close>, and no failure removes an entry or stops the loop.
\<close>

theorem one_result_per_part:
  assumes "1 \<le> length partNumbers" and "length partNumbers \<le> 10"
  shows "\<exists>s. fst (bulk_process_with sources (PnArray partNumbers)) = BulkSummary s
           \<and> length (results s) = length partNumbers
           \<and> map originalPart (results s) = partNumbers
           \<and> results s = map (\<lambda>(i, part). settled part (fst (sources i part)))
                             (List.enumerate 0 partNumbers)"
proof -
  from assms have ne: "partNumbers \<noteq> []" by auto
  show ?thesis
    unfolding bulk_process_with_accepted [OF ne assms(2)]
    by (simp add: map_originalPart_enumerate)
qed

text \<open>Witness for C2: two part numbers in an environment where every source fails.\<close>

theorem one_result_per_part_witness:
  "1 \<le> length [''LM317'', ''NE555''] \<and> length [''LM317'', ''NE555''] \<le> 10
   \<and> (\<exists>s. fst (bulk_process_with (\<lambda>i. process_part (always synthesis_down i))
                  (PnArray [''LM317'', ''NE555''])) = BulkSummary s
           \<and> length (results s) = 2
           \<and> map originalPart (results s) = [''LM317'', ''NE555''])"
  using one_result_per_part
    [of "[''LM317'', ''NE555'']" "\<lambda>i. process_part (always synthesis_down i)"]
  by auto

subsection \<open>The counters of the summary\<close>

text \<open>
  Claim C3. In every summary the handler returns, \<open>totalProcessed\<close> is the length of
  \<open>results\<close>, and \<open>successCount + errorCount = totalProcessed\<close>, where \<open>successCount\<close> counts
  the results with status \<open>success\<close> and \<open>errorCount\<close> is the length of the top-level
  \<open>errors\<close> list.
\<close>

theorem summary_counters:
  assumes "fst (bulk_process_with sources field) = BulkSummary s"
  shows "totalProcessed s = length (results s)
       \<and> successCount s + errorCount s = totalProcessed s
       \<and> successCount s = length (filter (\<lambda>r. status r = ''success'') (results s))
       \<and> errorCount s = length (errors s)"
proof (cases field)
  case (PnArray partNumbers)
  show ?thesis
  proof (cases "partNumbers = [] \<or> 10 < length partNumbers")
    case True
    with assms PnArray show ?thesis
      by (simp add: bulk_process_with_rejected)
  next
    case False
    then have ne: "partNumbers \<noteq> []" and le: "length partNumbers \<le> 10" by auto
    from assms have s: "s = \<lparr> success = True,
          results = map (\<lambda>(k, part). settled part (fst (sources k part)))
                        (List.enumerate 0 partNumbers),
          errors = concat (map (\<lambda>(k, part). raised part (fst (sources k part)))
                               (List.enumerate 0 partNumbers)),
          totalProcessed = length partNumbers,
          successCount = length (filter (\<lambda>r. status r = ''success'')
                           (map (\<lambda>(k, part). settled part (fst (sources k part)))
                                (List.enumerate 0 partNumbers))),
          errorCount = length (concat (map (\<lambda>(k, part). raised part (fst (sources k part)))
                                          (List.enumerate 0 partNumbers))) \<rparr>"
      unfolding PnArray bulk_process_with_accepted [OF ne le] by simp
    have "successCount s + errorCount s = length (List.enumerate 0 partNumbers)"
      unfolding s using count_split [of sources "List.enumerate 0 partNumbers"]
      by simp
    then show ?thesis
      by (simp add: s)
  qed
qed (use assms in \<open>simp_all add: bulk_process_with_def\<close>)

text \<open>Witness for C3: the summary of a one-part batch.\<close>

theorem summary_counters_witness:
  "\<exists>s. fst (bulk_process_with (\<lambda>i. process_part (always synthesis_down i))
              (PnArray [''NE555''])) = BulkSummary s
       \<and> totalProcessed s = length (results s)
       \<and> successCount s + errorCount s = totalProcessed s"
proof -
  obtain s where s: "fst (bulk_process_with (\<lambda>i. process_part (always synthesis_down i))
              (PnArray [''NE555''])) = BulkSummary s"
    by (simp add: bulk_process_with_def Let_def split: prod.splits)
  from summary_counters [OF s] s show ?thesis by blast
qed

subsection \<open>Rejected lists\<close>

text \<open>
  Claim C8. An empty list of part numbers and a list of more than 10 are rejected before any
  per-part work: the handler answers with an error (status 400), makes no external request
  (no browser launch, no search request, no model request), and returns no summary, so the
  empty list does not give an empty successful batch.
\<close>

theorem invalid_list_rejected:
  assumes "partNumbers = [] \<or> 10 < length partNumbers"
  shows "(\<exists>message. fst (bulk_process_with sources (PnArray partNumbers)) = BulkError 400 message)
       \<and> snd (bulk_process_with sources (PnArray partNumbers)) = []
       \<and> (\<forall>s. fst (bulk_process_with sources (PnArray partNumbers)) \<noteq> BulkSummary s)"
  unfolding bulk_process_with_rejected [OF assms] by simp

text \<open>Witness for C8: a list of eleven part numbers.\<close>

theorem invalid_list_rejected_witness:
  "10 < length eleven_parts
   \<and> bulk_process_with (\<lambda>i. process_part (always synthesis_down i)) (PnArray eleven_parts) =
       (BulkError 400 ''Maximum 10 part numbers allowed'', [])"
proof -
  have h: "eleven_parts = [] \<or> 10 < length eleven_parts"
    by (simp add: eleven_parts_def)
  have "\<exists>message. bulk_process_with (\<lambda>i. process_part (always synthesis_down i))
          (PnArray eleven_parts) = (BulkError 400 message, [])"
    using invalid_list_rejected [OF h, of "\<lambda>i. process_part (always synthesis_down i)"]
    by (metis prod.collapse)
  then show ?thesis
    by (auto simp: bulk_process_with_def eleven_parts_def)
qed

section \<open>Properties of the structured-source extractor\<close>

subsection \<open>Match-type inference\<close>

lemma match_phrase_table:
  "match_phrase (toLowerCase text) = label_by_priority code_phrase_priority text"
  by (simp add: match_phrase_def label_by_priority_def code_phrase_priority_def)

text \<open>
  Claim C4, as the code has it. For each surviving anchor the ancestor chain is walked outward
  from its parent, stopping before \<open>document.body\<close>, and the first ancestor whose lowercased
  text contains one of the phrases decides the label, with the priority of the \<open>if\<close> chain:
  Drop-in replacement (spelled \<open>drop-in replacement\<close> or \<open>drop in replacement\<close>) first, then
  Exact Match, Same Functionality, Pin Compatible, Functional Equivalent, Compatible,
  Replacement; the default \<open>Cross-Reference Match\<close> is assigned when no phrase occurs.
\<close>

theorem match_type_by_code_priority: "infer_match_type start = nearest_label code_phrase_priority start"
proof (induction start rule: infer_match_type.induct)
  case 1
  show ?case by (simp add: nearest_label_def)
next
  case (2 tx h t body parent)
  show ?case
  proof (cases body)
    case True
    then show ?thesis by (simp add: nearest_label_def)
  next
    case False
    show ?thesis
    proof (cases "label_by_priority code_phrase_priority tx")
      case None
      with False 2 show ?thesis
        by (simp add: nearest_label_def match_phrase_table)
    next
      case (Some label)
      with False show ?thesis
        by (simp add: nearest_label_def match_phrase_table)
    qed
  qed
qed

text \<open>
  Counterexample to C4 as stated: for an ancestor whose text contains both \<open>exact match\<close> and
  \<open>drop-in replacement\<close>, the code assigns \<open>Drop-in replacement\<close>, while the priority of the
  vocabulary's list order assigns \<open>Exact Match\<close>.
\<close>

theorem match_type_priority_differs:
  "infer_match_type two_phrase_cell = ''Drop-in replacement'' \<and>
   nearest_label spec_phrase_priority two_phrase_cell = ''Exact Match''"
  by (simp add: two_phrase_cell_def match_phrase_def toLowerCase_def ascii_upper_def
        ascii_lower_def latin1_upper_def latin1_lower_def nearest_label_def
        label_by_priority_def spec_phrase_priority_def
       )

subsection \<open>Completion of a call\<close>

text \<open>
  Claim C6, as the code has it. A failure of the browser launch, of the page set-up, of the
  navigation, of the wait for the result selector or of the extraction never reaches the
  caller: provided that closing the browser does not itself reject, the call returns a list,
  and the empty list after any of these failures. \<open>browser.close()\<close> is called on every
  exit path on which a browser was launched. The only error that reaches the caller is a
  rejection of \<open>browser.close()\<close>.
\<close>

theorem scrape_failures_contained:
  "(launch_error w \<noteq> None \<or> close_error w = None \<longrightarrow>
      (\<exists>alternatives. completion (scrapeTICrossReference w part) = Returns alternatives))
   \<and> ((launch_error w \<noteq> None \<or> close_error w = None) \<and>
       (launch_error w \<noteq> None \<or> newPage_error w \<noteq> None \<or> setUserAgent_error w \<noteq> None \<or>
        goto_error w \<noteq> None \<or> waitForSelector_error w \<noteq> None \<or> eval_error w \<noteq> None) \<longrightarrow>
      completion (scrapeTICrossReference w part) = Returns [])
   \<and> launched (scrapeTICrossReference w part) = (launch_error w = None)
   \<and> close_called (scrapeTICrossReference w part) = launched (scrapeTICrossReference w part)
   \<and> (completion (scrapeTICrossReference w part) = Throws m \<longleftrightarrow>
        launch_error w = None \<and> close_error w = Some m)"
  by (auto simp: scrapeTICrossReference_def scrape_try_def scrape_catch_def
           split: option.splits)

text \<open>Witness for C6: the browser cannot be launched, and the call returns the empty list.\<close>

theorem scrape_failures_contained_witness:
  "launch_error no_browser \<noteq> None
   \<and> completion (scrapeTICrossReference no_browser ''LM317'') = Returns []
   \<and> \<not> launched (scrapeTICrossReference no_browser ''LM317'')"
  using scrape_failures_contained [of no_browser "''LM317''"] by (simp add: no_browser_def)

text \<open>
  Counterexample to C6 as stated: the wait for the result selector times out and closing the
  browser rejects; the call then throws to its caller.
\<close>

theorem scrape_throws_when_close_rejects:
  "completion (scrapeTICrossReference close_rejects ''LM317'') =
     Throws ''Protocol error (Browser.close): Target closed''"
  by (simp add: scrapeTICrossReference_def scrape_try_def scrape_catch_def close_rejects_def)

subsection \<open>Shape of the alternatives\<close>

lemma match_phrase_label: "match_phrase t = Some label \<Longrightarrow> label \<in> set match_labels"
  by (auto simp: match_phrase_def match_labels_def split: if_splits)

lemma infer_match_type_label: "infer_match_type start \<in> set match_labels"
proof (induction start rule: infer_match_type.induct)
  case 1
  show ?case by (simp add: match_labels_def)
next
  case (2 tx h t body parent)
  show ?case
  proof (cases body)
    case True
    then show ?thesis by (simp add: match_labels_def)
  next
    case False
    then show ?thesis
      using 2 by (cases "match_phrase (toLowerCase tx)") (simp_all add: match_phrase_label)
  qed
qed

lemma str_includes_self: "str_includes s s"
  by (cases s) simp_all

lemma scrape_returns:
  assumes "completion (scrapeTICrossReference w part) = Returns alternatives"
  shows "alternatives = [] \<or> alternatives = extract_alternatives (anchors w)"
  using assms
  by (auto simp: scrapeTICrossReference_def scrape_try_def scrape_catch_def
           split: option.splits if_splits)

lemma kept_anchor_text:
  assumes "keep_anchor el"
  shows "3 < length (trim (element.textContent el)) \<and> length (trim (element.textContent el)) < 20
       \<and> list_all (\<lambda>d. \<not> str_includes (trim (element.textContent el)) d) denylist"
  using assms by (simp add: keep_anchor_def Let_def denylist_def)

text \<open>
  Claim C7. Every alternative that the extractor returns has a \<open>matchType\<close> among the eight
  fixed labels, and a \<open>partNumber\<close> of length greater than 3 and less than 20 that is none of
  the excluded navigation texts (it does not even contain one of them).
\<close>

theorem alternative_well_formed:
  assumes "completion (scrapeTICrossReference w part) = Returns alternatives"
    and "a \<in> set alternatives"
  shows "matchType a \<in> set match_labels
       \<and> 3 < length (ti_alt.partNumber a) \<and> length (ti_alt.partNumber a) < 20
       \<and> ti_alt.partNumber a \<notin> set denylist
       \<and> list_all (\<lambda>d. \<not> str_includes (ti_alt.partNumber a) d) denylist"
proof -
  from scrape_returns [OF assms(1)] assms(2)
  have "a \<in> set (extract_alternatives (anchors w))" by auto
  then obtain el where el: "keep_anchor el" and a: "a = to_alternative el"
    by (auto simp: extract_alternatives_def)
  have pn: "ti_alt.partNumber a = trim (element.textContent el)"
    and mt: "matchType a = infer_match_type (parentElement el)"
    by (simp_all add: a to_alternative_def)
  from kept_anchor_text [OF el] have len: "3 < length (ti_alt.partNumber a)"
    "length (ti_alt.partNumber a) < 20"
    and deny: "list_all (\<lambda>d. \<not> str_includes (ti_alt.partNumber a) d) denylist"
    by (simp_all add: pn)
  have "ti_alt.partNumber a \<notin> set denylist"
  proof
    assume "ti_alt.partNumber a \<in> set denylist"
    with deny have "\<not> str_includes (ti_alt.partNumber a) (ti_alt.partNumber a)"
      by (simp add: list_all_iff)
    then show False by (simp add: str_includes_self)
  qed
  with len deny show ?thesis by (simp add: mt infer_match_type_label)
qed

text \<open>Witness for C7: a result page with one product link and one navigation link.\<close>

theorem alternative_well_formed_witness:
  "completion (scrapeTICrossReference result_page ''TPS7A4501'') =
     Returns [\<lparr> ti_alt.partNumber = ''TPS7A4501'', matchType = ''Pin Compatible'',
                href = ''https://www.ti.com/product/TPS7A4501'', title = ''TPS7A4501'' \<rparr>]
   \<and> ''Pin Compatible'' \<in> set match_labels
   \<and> ''TPS7A4501'' \<notin> set denylist"
proof -
  have run: "completion (scrapeTICrossReference result_page ''TPS7A4501'') =
     Returns [\<lparr> ti_alt.partNumber = ''TPS7A4501'', matchType = ''Pin Compatible'',
                href = ''https://www.ti.com/product/TPS7A4501'', title = ''TPS7A4501'' \<rparr>]"
    by (simp add: scrapeTICrossReference_def scrape_try_def scrape_catch_def result_page_def
        extract_alternatives_def keep_anchor_def to_alternative_def trim_def is_space_def
        white_space_def match_phrase_def toLowerCase_def ascii_upper_def ascii_lower_def
        latin1_upper_def latin1_lower_def Let_def)
  from alternative_well_formed [OF run] show ?thesis using run by simp
qed

section \<open>Properties of the reply parser\<close>

lemma first_some_map:
  "first_some (map f ks) = Some v \<Longrightarrow> \<exists>k \<in> set ks. f k = Some v"
proof (induction ks)
  case Nil
  then show ?case by simp
next
  case (Cons k ks)
  then show ?case by (cases "f k") auto
qed

lemma take_within_run:
  assumes "k \<le> length (takeWhile cls s)"
  shows "length (take k s) = k \<and> list_all cls (take k s)"
proof -
  have eq: "take k s = take k (takeWhile cls s)"
    using assms by (metis takeWhile_dropWhile_id take_append diff_is_0_eq' take_0 append_Nil2)
  have "set (take k (takeWhile cls s)) \<subseteq> set (takeWhile cls s)"
    by (rule set_take_subset)
  then have "list_all cls (take k s)"
    unfolding eq list_all_iff by (auto dest: set_takeWhileD)
  moreover have "length (take k s) = k"
    unfolding eq using assms by simp
  ultimately show ?thesis by simp
qed

lemma candidates_bounds: "k \<in> set (candidates greedy lo hi) \<Longrightarrow> lo \<le> k \<and> k \<le> hi"
  by (auto simp: candidates_def split: if_splits)

lemma rx_match_captures:
  "rx_match rx s = Some groups \<Longrightarrow>
     list_all2 (\<lambda>(lo, cls) g. lo \<le> length g \<and> list_all cls g) (capture_specs rx) groups"
proof (induction rx s arbitrary: groups rule: rx_match.induct)
  case (1 s)
  then show ?case by simp
next
  case (2 r s)
  then show ?case by (simp split: if_splits)
next
  case (3 c r s)
  then show ?case by (cases s) (simp_all split: if_splits)
next
  case (4 cls r s)
  then show ?case by (cases s) (simp_all split: if_splits)
next
  case (5 greedy lo cls captured r s)
  from "5.prems" obtain k where k: "k \<in> set (candidates greedy lo (length (takeWhile cls s)))"
    and some: "map_option (\<lambda>groups. if captured then take k s # groups else groups)
                 (rx_match r (drop k s)) = Some groups"
    by (auto dest!: first_some_map)
  from some obtain rest where rest: "rx_match r (drop k s) = Some rest"
    and groups: "groups = (if captured then take k s # rest else rest)"
    by auto
  from "5.IH" [OF k rest]
  have ih: "list_all2 (\<lambda>(lo, cls) g. lo \<le> length g \<and> list_all cls g) (capture_specs r) rest" .
  from candidates_bounds [OF k] have "lo \<le> k" and "k \<le> length (takeWhile cls s)" by auto
  with take_within_run [of k cls s] have "lo \<le> length (take k s) \<and> list_all cls (take k s)"
    by simp
  with ih show ?case by (simp add: groups)
qed

lemma alternative_rx_groups:
  assumes "rx_match alternative_rx line = Some groups"
  shows "\<exists>g1 g2 g3. groups = [g1, g2, g3] \<and> g1 \<noteq> [] \<and> list_all is_part_char g1
           \<and> g2 \<noteq> [] \<and> g3 \<noteq> []"
proof -
  from rx_match_captures [OF assms]
  have "list_all2 (\<lambda>(lo, cls) g. lo \<le> length g \<and> list_all cls g)
          [(1, is_part_char), (1, is_dot), (1, is_dot)] groups"
    by (simp add: alternative_rx_def)
  then show ?thesis
    by (auto simp: list_all2_Cons1)
qed

lemma part_char_not_space: "is_part_char c \<Longrightarrow> \<not> is_space c"
  by (auto simp: is_part_char_def is_space_def white_space_def ascii_upper_def ascii_digits_def)

lemma trim_part_chars:
  assumes "list_all is_part_char g"
  shows "trim g = g"
proof (cases g rule: rev_cases)
  case Nil
  then show ?thesis by (simp add: trim_def)
next
  case (snoc ys y)
  with assms have y: "\<not> is_space y" by (simp add: part_char_not_space)
  from assms have "g = [] \<or> \<not> is_space (hd g)"
    by (cases g) (simp_all add: part_char_not_space)
  then have "dropWhile is_space g = g" by (cases g) auto
  moreover have "dropWhile is_space (rev g) = rev g"
    using y snoc by simp
  ultimately show ?thesis by (simp add: trim_def)
qed

lemma parse_line_Some:
  assumes "parse_line line = Some a"
  shows "\<exists>g1 g2 g3. rx_match alternative_rx line = Some [g1, g2, g3]
           \<and> g1 \<noteq> [] \<and> list_all is_part_char g1 \<and> g2 \<noteq> [] \<and> g3 \<noteq> []
           \<and> a = \<lparr> ai_alt.partNumber = g1, description = trim g2, manufacturer = trim g3 \<rparr>"
proof (cases "rx_match alternative_rx line")
  case None
  with assms show ?thesis by (simp add: parse_line_def)
next
  case (Some groups)
  from alternative_rx_groups [OF Some] obtain g1 g2 g3 where
    g: "groups = [g1, g2, g3]" "g1 \<noteq> []" "list_all is_part_char g1" "g2 \<noteq> []" "g3 \<noteq> []"
    by blast
  with assms Some show ?thesis
    by (simp add: parse_line_def trim_part_chars)
qed

lemma parse_ai_alternatives_subset:
  assumes "a \<in> set (parse_ai_alternatives content)"
  shows "\<exists>line \<in> set (split_on (CHR 0x0A) content). parse_line line = Some a"
proof -
  from assms have "a \<in> set (List.map_filter parse_line
      (filter (\<lambda>line. rx_test numbered_line_rx (trim line))
        (filter (\<lambda>line. trim line \<noteq> []) (split_on (CHR 0x0A) content))))"
    by (auto simp: parse_ai_alternatives_def Let_def dest: in_set_takeD)
  then show ?thesis
    by (auto simp: map_filter_def)
qed

lemma parse_line_defined: "(parse_line line \<noteq> None) = rx_test alternative_rx line"
proof (cases "rx_match alternative_rx line")
  case None
  then show ?thesis by (simp add: parse_line_def rx_test_def)
next
  case (Some groups)
  from alternative_rx_groups [OF Some] obtain g1 g2 g3 where "groups = [g1, g2, g3]" by blast
  with Some show ?thesis by (simp add: parse_line_def rx_test_def)
qed

lemma parse_ai_alternatives_length:
  "length (parse_ai_alternatives content) =
     min 3 (length (filter well_formed_line (split_on (CHR 0x0A) content)))"
proof -
  have "filter (\<lambda>line. parse_line line \<noteq> None)
          (filter (\<lambda>line. rx_test numbered_line_rx (trim line))
             (filter (\<lambda>line. trim line \<noteq> []) (split_on (CHR 0x0A) content))) =
        filter well_formed_line (split_on (CHR 0x0A) content)"
    unfolding filter_filter parse_line_defined well_formed_line_def
    by (simp add: conj_assoc)
  then show ?thesis
    by (simp add: parse_ai_alternatives_def Let_def map_filter_def min.commute)
qed

text \<open>
  Claim C5, as the code has it. For every reply of the model in batch mode the parsed list has
  at most 3 entries; every entry comes from a line of the reply that matches the numbered
  three-field pattern, has a non-empty \<open>partNumber\<close> made of the characters \<open>A-Z 0-9 - . /\<close>,
  and has as \<open>description\<close> and \<open>manufacturer\<close> the trimmed text of two non-empty captures;
  lines that do not match are dropped without an error, so the number of entries is the
  number of well-formed lines, capped at 3. A reply with 2 well-formed and 2 malformed lines
  gives exactly 2 entries.
\<close>

theorem parsed_alternatives_shape:
  "length (parse_ai_alternatives content) \<le> 3
   \<and> length (parse_ai_alternatives content) =
       min 3 (length (filter well_formed_line (split_on (CHR 0x0A) content)))
   \<and> (\<forall>a \<in> set (parse_ai_alternatives content).
        ai_alt.partNumber a \<noteq> [] \<and> list_all is_part_char (ai_alt.partNumber a)
        \<and> (\<exists>line \<in> set (split_on (CHR 0x0A) content). \<exists>g1 g2 g3.
              rx_match alternative_rx line = Some [g1, g2, g3] \<and> g2 \<noteq> [] \<and> g3 \<noteq> []
              \<and> a = \<lparr> ai_alt.partNumber = g1, description = trim g2, manufacturer = trim g3 \<rparr>))
   \<and> length (parse_ai_alternatives mixed_reply) = 2"
proof (intro conjI ballI)
  show "length (parse_ai_alternatives content) \<le> 3"
    by (simp add: parse_ai_alternatives_def Let_def)
next
  show "length (parse_ai_alternatives content) =
       min 3 (length (filter well_formed_line (split_on (CHR 0x0A) content)))"
    by (rule parse_ai_alternatives_length)
next
  fix a assume a: "a \<in> set (parse_ai_alternatives content)"
  from parse_ai_alternatives_subset [OF a] obtain line where
    line: "line \<in> set (split_on (CHR 0x0A) content)" and p: "parse_line line = Some a" by blast
  from parse_line_Some [OF p] obtain g1 g2 g3 where
    g: "rx_match alternative_rx line = Some [g1, g2, g3]" "g1 \<noteq> []" "list_all is_part_char g1"
       "g2 \<noteq> []" "g3 \<noteq> []"
       "a = \<lparr> ai_alt.partNumber = g1, description = trim g2, manufacturer = trim g3 \<rparr>"
    by blast
  from g show "ai_alt.partNumber a \<noteq> []" by simp
  from g show "list_all is_part_char (ai_alt.partNumber a)" by simp
  from line g show "\<exists>line \<in> set (split_on (CHR 0x0A) content). \<exists>g1 g2 g3.
              rx_match alternative_rx line = Some [g1, g2, g3] \<and> g2 \<noteq> [] \<and> g3 \<noteq> []
              \<and> a = \<lparr> ai_alt.partNumber = g1, description = trim g2, manufacturer = trim g3 \<rparr>"
    by blast
next
  show "length (parse_ai_alternatives mixed_reply) = 2"
    unfolding mixed_reply_def by code_simp
qed

text \<open>Witness for C5: the second entry of the reply with two well-formed lines.\<close>

theorem parsed_alternatives_shape_witness:
  "\<lparr> ai_alt.partNumber = ''LM338'', description = ''5A regulator'',
      manufacturer = ''Texas Instruments'' \<rparr> \<in> set (parse_ai_alternatives mixed_reply)
   \<and> list_all is_part_char ''LM338''
   \<and> length (parse_ai_alternatives mixed_reply) \<le> 3"
proof -
  have v: "parse_ai_alternatives mixed_reply =
     [\<lparr> ai_alt.partNumber = ''LM317T'', description = ''Adjustable regulator'',
        manufacturer = ''STMicroelectronics'' \<rparr>,
      \<lparr> ai_alt.partNumber = ''LM338'', description = ''5A regulator'',
        manufacturer = ''Texas Instruments'' \<rparr>]"
    unfolding mixed_reply_def by code_simp
  then have m: "\<lparr> ai_alt.partNumber = ''LM338'', description = ''5A regulator'',
      manufacturer = ''Texas Instruments'' \<rparr> \<in> set (parse_ai_alternatives mixed_reply)"
    by simp
  from parsed_alternatives_shape [of mixed_reply] have
    "\<forall>a \<in> set (parse_ai_alternatives mixed_reply). list_all is_part_char (ai_alt.partNumber a)"
    and "length (parse_ai_alternatives mixed_reply) \<le> 3"
    by blast+
  with m show ?thesis by fastforce
qed

text \<open>
  Counterexample to C5 as stated: the line \<open>1. ABC -  - X\<close> matches the pattern with a
  description of one space, so the entry it yields has an empty \<open>description\<close>.
\<close>

theorem parsed_description_may_be_empty:
  "parse_ai_alternatives blank_description_reply =
     [\<lparr> ai_alt.partNumber = ''ABC'', description = [], manufacturer = ''X'' \<rparr>]"
  unfolding blank_description_reply_def by code_simp

section \<open>Properties of the export projection\<close>

text \<open>The row in terms of the specification's row: they differ only where the fallback
  \<open>matchType || 'Cross-Reference Match'\<close> replaces an empty match type.\<close>

lemma export_row_fallback:
  "export_row result =
     (if tiAlternatives result \<noteq> [] \<and> matchType (tiAlternatives result ! 0) = []
      then (spec_export_row result)[2 := ''Cross-Reference Match'']
      else spec_export_row result)"
  by (simp add: export_row_def spec_export_row_def nth_or_NA_def)

lemma match_labels_nonempty: "label \<in> set match_labels \<Longrightarrow> label \<noteq> []"
  by (auto simp: match_labels_def)

lemma export_row_labelled:
  assumes "\<forall>a \<in> set (tiAlternatives result). matchType a \<in> set match_labels"
  shows "export_row result = spec_export_row result"
proof (cases "tiAlternatives result")
  case Nil
  then show ?thesis by (simp add: export_row_fallback)
next
  case (Cons a rest)
  with assms have "matchType a \<noteq> []" by (simp add: match_labels_nonempty)
  with Cons show ?thesis by (simp add: export_row_fallback)
qed

lemma scrape_match_types:
  assumes "completion (scrapeTICrossReference w part) = Returns alternatives"
    and "a \<in> set alternatives"
  shows "matchType a \<in> set match_labels"
proof -
  from scrape_returns [OF assms(1)] assms(2)
  have "a \<in> set (extract_alternatives (anchors w))" by auto
  then obtain el where "a = to_alternative el"
    by (auto simp: extract_alternatives_def)
  then show ?thesis by (simp add: to_alternative_def infer_match_type_label)
qed

lemma process_part_match_types:
  assumes "fst (process_part e part) = Returns (ti_alts, ai_alts)" and "a \<in> set ti_alts"
  shows "matchType a \<in> set match_labels"
proof (cases "completion (scrapeTICrossReference (browser e) part)")
  case (Returns alternatives)
  with assms have "ti_alts = alternatives"
    by (simp add: process_part_def Let_def split: prod.splits)
  with assms(2) scrape_match_types [OF Returns] show ?thesis by simp
next
  case (Throws m)
  with assms have "ti_alts = []"
    by (simp add: process_part_def Let_def split: prod.splits)
  with assms(2) show ?thesis by simp
qed

lemma settled_match_types:
  assumes "a \<in> set (tiAlternatives (settled part (fst (process_part e part))))"
  shows "matchType a \<in> set match_labels"
proof (cases "fst (process_part e part)")
  case (Returns pair)
  obtain ti_alts ai_alts where pair: "pair = (ti_alts, ai_alts)" by (cases pair)
  from assms Returns pair have "a \<in> set (take 1 ti_alts)" by (simp add: settled_def)
  then have "a \<in> set ti_alts" by (rule in_set_takeD)
  with process_part_match_types Returns pair show ?thesis by blast
next
  case (Throws m)
  with assms show ?thesis by (simp add: settled_def)
qed

lemma bulk_process_results:
  assumes "fst (bulk_process env field) = BulkSummary s" and "r \<in> set (results s)"
  shows "\<exists>k part. r = settled part (fst (process_part (env k) part))"
proof (cases field)
  case (PnArray partNumbers)
  show ?thesis
  proof (cases "partNumbers = [] \<or> 10 < length partNumbers")
    case True
    with assms PnArray show ?thesis
      by (simp add: bulk_process_def bulk_process_with_rejected)
  next
    case False
    then have ne: "partNumbers \<noteq> []" and le: "length partNumbers \<le> 10" by auto
    from assms(1) have "results s = map (\<lambda>(k, part). settled part (fst (process_part (env k) part)))
                        (List.enumerate 0 partNumbers)"
      unfolding PnArray bulk_process_def bulk_process_with_accepted [OF ne le] by auto
    with assms(2) show ?thesis by auto
  qed
qed (use assms in \<open>simp_all add: bulk_process_def bulk_process_with_def\<close>)

lemma bulk_process_match_types:
  assumes "fst (bulk_process env field) = BulkSummary s" and "r \<in> set (results s)"
    and "a \<in> set (tiAlternatives r)"
  shows "matchType a \<in> set match_labels"
  using bulk_process_results [OF assms(1,2)] assms(3) settled_match_types by blast

text \<open>
  Claim C9. For every part result, that is, a result whose structured alternatives carry a
  match type of the fixed vocabulary, as every result of the batch handler does, the export
  row has the 7 columns: the original part, the part number of the first structured
  alternative or \<open>N/A\<close>, its match type or \<open>N/A\<close>, the part numbers of the first, second and
  third synthesized alternatives or \<open>N/A\<close>, and the status, where \<open>N/A\<close> stands for an absent
  alternative. The sheet is the header followed by one row per result, a function of the
  results alone.
\<close>

theorem export_row_columns:
  "((\<forall>a \<in> set (tiAlternatives result). matchType a \<in> set match_labels) \<longrightarrow>
       export_row result = spec_export_row result \<and> length (export_row result) = 7)
   \<and> (fst (bulk_process env field) = BulkSummary s \<longrightarrow>
        (\<forall>r \<in> set (results s). export_row r = spec_export_row r)
        \<and> excel_data (results s) = export_header # map spec_export_row (results s))
   \<and> excel_data parsedResults = export_header # map export_row parsedResults"
proof (intro conjI impI ballI)
  assume "\<forall>a \<in> set (tiAlternatives result). matchType a \<in> set match_labels"
  then show "export_row result = spec_export_row result" by (rule export_row_labelled)
next
  show "length (export_row result) = 7" by (simp add: export_row_def)
next
  fix r assume "fst (bulk_process env field) = BulkSummary s" and "r \<in> set (results s)"
  then show "export_row r = spec_export_row r"
    using bulk_process_match_types export_row_labelled by blast
next
  assume s: "fst (bulk_process env field) = BulkSummary s"
  have "map export_row (results s) = map spec_export_row (results s)"
    using bulk_process_match_types [OF s] export_row_labelled by (intro map_cong) blast+
  then show "excel_data (results s) = export_header # map spec_export_row (results s)"
    by (simp add: excel_data_def)
next
  show "excel_data parsedResults = export_header # map export_row parsedResults"
    by (simp add: excel_data_def)
qed

text \<open>
  Witness for C9: the batch of one part number whose result page has a pin-compatible
  product link, and the sheet exported from its results.
\<close>

theorem export_row_columns_witness:
  "fst (bulk_process (always page_only) (PnArray [''TPS7A4501''])) =
     BulkSummary
       \<lparr> success = True,
         results =
           [\<lparr> originalPart = ''TPS7A4501'',
              tiAlternatives =
                [\<lparr> ti_alt.partNumber = ''TPS7A4501'', matchType = ''Pin Compatible'',
                   href = ''https://www.ti.com/product/TPS7A4501'', title = ''TPS7A4501'' \<rparr>],
              aiAlternatives = [], status = ''success'', error = None \<rparr>],
         errors = [], totalProcessed = 1, successCount = 1, errorCount = 0 \<rparr>
   \<and> excel_data
        [\<lparr> originalPart = ''TPS7A4501'',
           tiAlternatives =
             [\<lparr> ti_alt.partNumber = ''TPS7A4501'', matchType = ''Pin Compatible'',
                href = ''https://www.ti.com/product/TPS7A4501'', title = ''TPS7A4501'' \<rparr>],
           aiAlternatives = [], status = ''success'', error = None \<rparr>] =
       [export_header,
        [''TPS7A4501'', ''TPS7A4501'', ''Pin Compatible'', ''N/A'', ''N/A'', ''N/A'', ''success'']]"
proof -
  let ?r = "\<lparr> originalPart = ''TPS7A4501'',
              tiAlternatives =
                [\<lparr> ti_alt.partNumber = ''TPS7A4501'', matchType = ''Pin Compatible'',
                   href = ''https://www.ti.com/product/TPS7A4501'', title = ''TPS7A4501'' \<rparr>],
              aiAlternatives = [], status = ''success'', error = None \<rparr>"
  let ?s = "\<lparr> success = True, results = [?r], errors = [], totalProcessed = 1,
              successCount = 1, errorCount = 0 \<rparr>"
  have run: "fst (bulk_process (always page_only) (PnArray [''TPS7A4501''])) = BulkSummary ?s"
    by (simp add: bulk_process_def bulk_process_with_def process_part_def always_def
        page_only_def no_search_def googleSearch_def
        scrapeTICrossReference_def scrape_try_def scrape_catch_def result_page_def
        extract_alternatives_def keep_anchor_def to_alternative_def trim_def is_space_def
        white_space_def match_phrase_def toLowerCase_def ascii_upper_def ascii_lower_def
        latin1_upper_def latin1_lower_def Let_def)
  from export_row_columns [of ?r "always page_only" "PnArray [''TPS7A4501'']" ?s] run
  have "excel_data (results ?s) = export_header # map spec_export_row (results ?s)"
    by blast
  then have "excel_data [?r] =
       [export_header,
        [''TPS7A4501'', ''TPS7A4501'', ''Pin Compatible'', ''N/A'', ''N/A'', ''N/A'', ''success'']]"
    by (simp add: spec_export_row_def nth_or_NA_def)
  with run show ?thesis by simp
qed

section \<open>Properties of the spreadsheet upload\<close>

lemma extract_part_numbers_length: "\<not> 10 < length (extract_part_numbers jsonData)"
  by (simp add: extract_part_numbers_def)

text \<open>
  Claim C10. The list of part numbers is cut to its first 10 valid entries before the limit
  is checked, so no request is answered with the rejection \<open>Maximum 10 part numbers allowed\<close>;
  a sheet with more than 10 valid part numbers passes both checks with exactly its first 10
  entries, and is answered with these 10 once the temporary file is removed.
\<close>

theorem upload_limit_unreachable:
  "bulk_upload req \<noteq> UploadError 400 ''Maximum 10 part numbers allowed''
   \<and> (10 < length (filter valid_part (map first_cell jsonData)) \<longrightarrow>
        extract_part_numbers jsonData =
          take 10 (map trim_cell (filter valid_part (map first_cell jsonData)))
        \<and> length (extract_part_numbers jsonData) = 10
        \<and> bulk_upload (UploadedFile (Returns jsonData) None) =
            UploadOk (extract_part_numbers jsonData) 10)"
proof (intro conjI impI)
  show "bulk_upload req \<noteq> UploadError 400 ''Maximum 10 part numbers allowed''"
    by (simp add: bulk_upload_def Let_def extract_part_numbers_length
          split: upload_request.splits outcome.splits option.splits)
next
  assume many: "10 < length (filter valid_part (map first_cell jsonData))"
  show "extract_part_numbers jsonData =
          take 10 (map trim_cell (filter valid_part (map first_cell jsonData)))"
    by (simp add: extract_part_numbers_def)
  from many show len: "length (extract_part_numbers jsonData) = 10"
    by (simp add: extract_part_numbers_def)
  then have "extract_part_numbers jsonData \<noteq> []" by auto
  with len show "bulk_upload (UploadedFile (Returns jsonData) None) =
            UploadOk (extract_part_numbers jsonData) 10"
    by (simp add: bulk_upload_def Let_def)
qed

text \<open>Witness for C10: a sheet with eleven part numbers.\<close>

theorem upload_limit_unreachable_witness:
  "10 < length (filter valid_part (map first_cell eleven_rows))
   \<and> bulk_upload (UploadedFile (Returns eleven_rows) None) =
       UploadOk [''LM317'', ''NE555'', ''LM358'', ''LM393'', ''TL071'', ''TL072'', ''LM741'',
                 ''LM324'', ''LM339'', ''LM386''] 10"
proof -
  have many: "10 < length (filter valid_part (map first_cell eleven_rows))"
    by (simp add: eleven_rows_def first_cell_def valid_part_def trim_def is_space_def
          white_space_def)
  have ex: "extract_part_numbers eleven_rows =
      [''LM317'', ''NE555'', ''LM358'', ''LM393'', ''TL071'', ''TL072'', ''LM741'',
       ''LM324'', ''LM339'', ''LM386'']"
    by (simp add: extract_part_numbers_def eleven_rows_def first_cell_def valid_part_def
          trim_cell_def trim_def is_space_def white_space_def)
  from upload_limit_unreachable [of NoFile eleven_rows] many ex show ?thesis by simp
qed

end
